theory Spec2Isabelle
  imports Main "HOL-Library.AList" "HOL-Library.List_Lexorder"
begin

section \<open>Python values, classes and exceptions\<close>

text \<open>
  The part of Python's value universe that option values, defaults and configuration
  mappings range over. Floating-point values are left out.
\<close>

datatype pyval =
    PNone
  | PBool bool
  | PInt int
  | PStr string
  | PList "pyval list"
  | PTuple "pyval list"

text \<open>
  Classes that can be given as a type constraint, with the abstract numeric classes
  \<^verbatim>\<open>numbers.Integral\<close> and \<^verbatim>\<open>numbers.Number\<close> that \<^verbatim>\<open>Option.__init__\<close> names.
\<close>

datatype pyclass =
    CObject | CNoneType | CBool | CInt | CStr | CList | CTuple | CIntegral | CNumber

text \<open>\<^verbatim>\<open>builtins.type(v)\<close>.\<close>

fun type_of :: "pyval \<Rightarrow> pyclass" where
  "type_of PNone = CNoneType"
| "type_of (PBool _) = CBool"
| "type_of (PInt _) = CInt"
| "type_of (PStr _) = CStr"
| "type_of (PList _) = CList"
| "type_of (PTuple _) = CTuple"

text \<open>
  The classes an object of a given class is an instance of: \<^verbatim>\<open>bool\<close> derives from
  \<^verbatim>\<open>int\<close>, \<^verbatim>\<open>int\<close> is registered with both numeric abstract classes.
\<close>

fun superclasses :: "pyclass \<Rightarrow> pyclass list" where
  "superclasses CBool = [CBool, CInt, CIntegral, CNumber, CObject]"
| "superclasses CInt = [CInt, CIntegral, CNumber, CObject]"
| "superclasses c = [c, CObject]"

text \<open>\<^verbatim>\<open>isinstance(v, c)\<close> for a class \<open>c\<close>, which never raises.\<close>

definition instance_of :: "pyval \<Rightarrow> pyclass \<Rightarrow> bool" where
  "instance_of v c = (c \<in> set (superclasses (type_of v)))"

text \<open>
  What an option may hold as its \<^verbatim>\<open>type\<close>, by the annotation
  \<^verbatim>\<open>Union[str, type, tuple, list]\<close>: a class, a tuple, a list or a string. The
  components of a tuple or a list are again such objects.
\<close>

datatype type_spec =
    TClass pyclass
  | TTuple "type_spec list"
  | TList "type_spec list"
  | TStr string

text \<open>
  Exceptions are values; each carries its message. \<^verbatim>\<open>UnboundLocalError\<close> carries the
  name of the unbound local variable (the wording of its message depends on the
  interpreter's version).
\<close>

datatype error =
    RuntimeError string
  | ValueError string
  | AttributeError string
  | TypeError string
  | InvalidConfiguration string
  | UnboundLocalError string



text \<open>\<^verbatim>\<open>str(n)\<close> for an integer, as the f-strings format it.\<close>

definition digit_char :: "nat \<Rightarrow> char" where
  "digit_char d = ''0123456789'' ! d"

function str_nat :: "nat \<Rightarrow> string" where
  "str_nat n = (if n < 10 then [digit_char n] else str_nat (n div 10) @ [digit_char (n mod 10)])"
  by pat_completeness auto
termination
  by (relation "measure id") auto

definition str_int :: "int \<Rightarrow> string" where
  "str_int i = (if i < 0 then CHR ''-'' # str_nat (nat (- i)) else str_nat (nat i))"

section \<open>The option model\<close>

text \<open>
  \<^verbatim>\<open>OMITTED\<close> is the placeholder for a value that was not supplied; the source tests it
  by identity (\<^verbatim>\<open>is not OMITTED\<close>) and uses it "instead of None since None might be a
  proper value". A field that may hold the placeholder is an \<open>option\<close>: \<open>None\<close> is
  \<^verbatim>\<open>OMITTED\<close>, \<open>Some v\<close> a supplied value (which may be Python's \<^verbatim>\<open>None\<close>, \<open>PNone\<close>).
\<close>

text \<open>
  Code outside the repository that \<^verbatim>\<open>get_default\<close> calls: \<^verbatim>\<open>strax.deterministic_hash\<close>
  on a table of per-run defaults, and the builtin \<^verbatim>\<open>int\<close> on a string (which raises
  \<^verbatim>\<open>ValueError\<close> on a string that is no integer literal). Both are parameters.
\<close>

record externals =
  deterministic_hash :: "(int \<times> pyval) list \<Rightarrow> string"
  int_of_str :: "string \<Rightarrow> error + int"

text \<open>
  \<^verbatim>\<open>default_by_run\<close> is, by its docstring, either a callable or a list of
  \<^verbatim>\<open>(start_run_id, value)\<close> pairs.
\<close>

datatype by_run = Callable | Table "(int \<times> pyval) list"

text \<open>The class of an option object: \<^verbatim>\<open>Option\<close> itself or its subclass \<^verbatim>\<open>Config\<close>.\<close>

datatype option_class = Option_class | Config_class

text \<open>
  A \<^verbatim>\<open>default_factory\<close> is a callable without arguments. It may read and change state
  outside the option (\<open>'w\<close>), and it may raise.

  \<^verbatim>\<open>taken_by\<close> is only annotated in the class body (\<^verbatim>\<open>taken_by: str\<close>): the attribute
  exists on an object once registration has assigned it, so it is \<open>None\<close> before.

  The attributes \<^verbatim>\<open>default\<close> and \<^verbatim>\<open>help\<close> are the fields \<open>default_value\<close> and
  \<open>help_text\<close>; \<open>cls\<close> is the class of the object.
\<close>

record 'w Option =
  cls :: option_class
  name :: string
  type :: "type_spec option"
  default_value :: "pyval option"
  default_by_run :: "by_run option"
  default_factory :: "('w \<Rightarrow> (error + pyval) \<times> 'w) option"
  track :: bool
  help_text :: string
  child_option :: bool
  parent_option_name :: "string option"
  taken_by :: "string option"

text \<open>Truth value of an \<^verbatim>\<open>Optional[str]\<close>: \<^verbatim>\<open>None\<close> and the empty string are false.\<close>

fun truthy :: "string option \<Rightarrow> bool" where
  "truthy None = False"
| "truthy (Some s) = (s \<noteq> [])"

text \<open>
  The loop of \<^verbatim>\<open>__init__\<close> over \<^verbatim>\<open>[numbers.Integral, numbers.Number]\<close> with its
  \<^verbatim>\<open>else\<close> branch, which runs when no class matched.
\<close>

fun infer_type_loop :: "pyval \<Rightarrow> pyclass list \<Rightarrow> type_spec" where
  "infer_type_loop d [] = TClass (type_of d)"
| "infer_type_loop d (ntype # rest) =
     (if instance_of d ntype then TClass ntype else infer_type_loop d rest)"

text \<open>
  \<^verbatim>\<open>Option.__init__\<close>. The first argument is the class being instantiated. The checks
  come in the order of the source: the child/parent pairing, then the count of default
  strategies, then the inference of the type.
\<close>

definition Option_init ::
  "option_class \<Rightarrow> string \<Rightarrow> type_spec option \<Rightarrow> pyval option \<Rightarrow>
   ('w \<Rightarrow> (error + pyval) \<times> 'w) option \<Rightarrow> by_run option \<Rightarrow> bool \<Rightarrow> string option \<Rightarrow>
   bool \<Rightarrow> bool \<Rightarrow> string \<Rightarrow> error + 'w Option" where
  "Option_init c nm tp dflt factory per_run child parent trk infer_type hlp =
    (let self = \<lparr>cls = c, name = nm, type = tp, default_value = dflt,
                  default_by_run = per_run, default_factory = factory, track = trk,
                  help_text = hlp, child_option = child, parent_option_name = parent,
                  taken_by = None\<rparr>
     in
     if (child_option self \<and> \<not> truthy (parent_option_name self))
        \<or> (\<not> child_option self \<and> truthy (parent_option_name self))
     then Inl (ValueError
       (''You have to specify both, '' @ [CHR 0x22] @ ''child_option'' @ [CHR 0x22]
        @ ''=True and ''
        @ ''the name of the parent option which should be ''
        @ ''overwritten by the child. Options which are unique ''
        @ ''to the child should not be marked as a child option.''
        @ ''Please update '' @ name self @ '' accordingly.''))
     else if length (filter id
               [default_value self \<noteq> None,
                default_factory self \<noteq> None,
                default_by_run self \<noteq> None]) > 1
     then Inl (RuntimeError
       (''Tried to specify more than one default for option '' @ name self @ ''.''))
     else (case (infer_type, tp, dflt) of
             (True, None, Some d) \<Rightarrow>
               Inr (self\<lparr>type := Some (infer_type_loop d [CIntegral, CNumber])\<rparr>)
           | _ \<Rightarrow> Inr self))"

text \<open>
  A run id as \<^verbatim>\<open>get_default\<close> tells them apart: \<^verbatim>\<open>None\<close>, a string, or an integer.
\<close>

datatype run_id = RunNone | RunStr string | RunInt int

text \<open>\<^verbatim>\<open>run_id.startswith("_")\<close> and \<^verbatim>\<open>run_id.replace("_", "")\<close>.\<close>

fun startswith_underscore :: "string \<Rightarrow> bool" where
  "startswith_underscore [] = False"
| "startswith_underscore (c # _) = (c = CHR ''_'')"

definition remove_underscores :: "string \<Rightarrow> string" where
  "remove_underscores s = filter (\<lambda>c. c \<noteq> CHR ''_'') s"

text \<open>
  What the first lines of the per-run branch make of the run id: the flag
  \<^verbatim>\<open>is_superrun\<close>, or the run id as an integer. \<^verbatim>\<open>None\<close> counts as run 0; a string
  that does not start with an underscore is parsed by \<^verbatim>\<open>int\<close>, which may raise.
\<close>

datatype resolved_run = Superrun | Run int

fun resolve_run_id :: "externals \<Rightarrow> run_id \<Rightarrow> error + resolved_run" where
  "resolve_run_id ext RunNone = Inr (Run 0)"
| "resolve_run_id ext (RunInt i) = Inr (Run i)"
| "resolve_run_id ext (RunStr s) =
     (if startswith_underscore s then Inr Superrun
      else (case int_of_str ext (remove_underscores s) of
              Inl e \<Rightarrow> Inl e
            | Inr i \<Rightarrow> Inr (Run i)))"

text \<open>
  The loop over the table: \<^verbatim>\<open>use_value\<close> starts as \<^verbatim>\<open>OMITTED\<close>, the loop stops at the
  first pair whose \<^verbatim>\<open>start_run\<close> is greater than the run id.
\<close>

fun use_value_loop :: "int \<Rightarrow> (int \<times> pyval) list \<Rightarrow> pyval option \<Rightarrow> pyval option" where
  "use_value_loop run [] use_value = use_value"
| "use_value_loop run ((start_run, v) # rest) use_value =
     (if start_run > run then use_value else use_value_loop run rest (Some v))"

text \<open>
  The branch of \<^verbatim>\<open>get_default\<close> for an option whose \<^verbatim>\<open>default_by_run\<close> is set. Only the
  first fragment of the \<^verbatim>\<open>ValueError\<close> message is an f-string, so the braces of the
  other fragments are part of the text.
\<close>

definition per_run_default :: "externals \<Rightarrow> run_id \<Rightarrow> by_run \<Rightarrow> error + pyval" where
  "per_run_default ext run_id by_run =
     (case resolve_run_id ext run_id of
        Inl e \<Rightarrow> Inl e
      | Inr r \<Rightarrow>
         (case by_run of
            Callable \<Rightarrow> Inl (RuntimeError
              (''Using functions to specify per-run defaults is no longer''
               @ ''supported: specify a (first_run, option) list, or ''
               @ ''a URL of a file to process in the plugin''))
          | Table table \<Rightarrow>
             (case r of
                Superrun \<Rightarrow>
                  Inr (PStr (''<SUBRUN-DEPENDENT:'' @ deterministic_hash ext table @ ''>''))
              | Run i \<Rightarrow>
                 (case use_value_loop i table None of
                    None \<Rightarrow> Inl (ValueError
                      (''Run id '' @ str_int i @ '' is smaller than the ''
                       @ ''lowest run id {start_run} for which the default ''
                       @ ''of the option {self.name} is known.''))
                  | Some v \<Rightarrow> Inr v))))"

text \<open>A configuration mapping: option names to values.\<close>

type_synonym config = "string \<rightharpoonup> pyval"

text \<open>The name of an option object's class, as an \<^verbatim>\<open>AttributeError\<close> prints it.\<close>

fun class_name_of :: "option_class \<Rightarrow> string" where
  "class_name_of Option_class = ''Option''"
| "class_name_of Config_class = ''Config''"

text \<open>
  \<^verbatim>\<open>Option.get_default\<close>. It does not assign to the option, so the option is not part of
  the result; the state \<open>'w\<close> is, since a default factory may change it. Formatting the
  last message reads \<^verbatim>\<open>self.taken_by\<close>, which fails on an object that has no such
  attribute.
\<close>

definition get_default ::
  "externals \<Rightarrow> 'w Option \<Rightarrow> run_id \<Rightarrow> config option \<Rightarrow> 'w \<Rightarrow> (error + pyval) \<times> 'w" where
  "get_default ext self run_id run_defaults w =
     (case (case run_defaults of None \<Rightarrow> None | Some rd \<Rightarrow> rd (name self)) of
        Some v \<Rightarrow> (Inr v, w)
      | None \<Rightarrow>
         (case default_value self of
            Some d \<Rightarrow> (Inr d, w)
          | None \<Rightarrow>
             (case default_factory self of
                Some factory \<Rightarrow> factory w
              | None \<Rightarrow>
                 (case default_by_run self of
                    Some by_run \<Rightarrow> (per_run_default ext run_id by_run, w)
                  | None \<Rightarrow>
                     (case taken_by self of
                        None \<Rightarrow> (Inl (AttributeError
                          ([CHR 0x27] @ class_name_of (cls self)
                           @ [CHR 0x27] @ '' object has no attribute ''
                           @ [CHR 0x27] @ ''taken_by'' @ [CHR 0x27])), w)
                      | Some plugin \<Rightarrow> (Inl (InvalidConfiguration
                          (''Missing option '' @ name self
                           @ '' required by '' @ plugin)), w))))))"


section \<open>Attribute-bound options\<close>

text \<open>
  Modelled from the spec: the plugin base class belongs to the pipeline core, outside
  the repository, and by the specification of the boundary it supplies a \<^verbatim>\<open>run_id\<close>
  attribute and a \<^verbatim>\<open>config\<close> mapping attribute. This is a plugin instance as far as
  \<^verbatim>\<open>Config.fetch\<close> reads it: \<^verbatim>\<open>run_id\<close> exists, while \<^verbatim>\<open>config\<close>, which \<^verbatim>\<open>fetch\<close>
  tests with \<^verbatim>\<open>hasattr\<close>, may be missing (\<open>None\<close>).
\<close>

record plugin =
  config_attr :: "config option"
  run_id_attr :: run_id

text \<open>\<^verbatim>\<open>Config.__init__\<close>: the name defaults to the empty string.\<close>

definition Config_init ::
  "string option \<Rightarrow> type_spec option \<Rightarrow> pyval option \<Rightarrow>
   ('w \<Rightarrow> (error + pyval) \<times> 'w) option \<Rightarrow> by_run option \<Rightarrow> bool \<Rightarrow> string option \<Rightarrow>
   bool \<Rightarrow> bool \<Rightarrow> string \<Rightarrow> error + 'w Option" where
  "Config_init nm tp dflt factory per_run child parent trk infer_type hlp =
     Option_init Config_class (case nm of None \<Rightarrow> [] | Some n \<Rightarrow> n)
       tp dflt factory per_run child parent trk infer_type hlp"

text \<open>\<^verbatim>\<open>Config.fetch\<close>, and \<^verbatim>\<open>Config.__get__\<close> which calls it.\<close>

definition fetch :: "externals \<Rightarrow> 'w Option \<Rightarrow> plugin \<Rightarrow> 'w \<Rightarrow> (error + pyval) \<times> 'w" where
  "fetch ext self plugin w =
     (case config_attr plugin of
        None \<Rightarrow> (Inl (AttributeError ''Plugin has not been configured.''), w)
      | Some config \<Rightarrow>
         (case config (name self) of
            Some v \<Rightarrow> (Inr v, w)
          | None \<Rightarrow> get_default ext self (run_id_attr plugin) None w))"

definition Config_get :: "externals \<Rightarrow> 'w Option \<Rightarrow> plugin \<Rightarrow> 'w \<Rightarrow> (error + pyval) \<times> 'w" where
  "Config_get ext self obj w = fetch ext self obj w"

text \<open>
  \<^verbatim>\<open>Config.__set__\<close>: raises whatever the value; the plugin and the option after the
  call are part of the result.
\<close>

definition Config_set ::
  "'w Option \<Rightarrow> plugin \<Rightarrow> pyval \<Rightarrow> (error + unit) \<times> 'w Option \<times> plugin" where
  "Config_set self obj v =
     (Inl (AttributeError (name self @ '' is a plugin configuration and cannot be set directly.'')),
      self, obj)"

section \<open>Registration of options on a plugin class\<close>

text \<open>
  An argument of \<^verbatim>\<open>takes_config\<close> is any object: an option, or something else.
\<close>

datatype 'w pyobj = OptionObj "'w Option" | OtherObj pyval

text \<open>
  The registry is a dictionary from names to options. Dictionaries keep the order in
  which keys were first inserted, and the order decides which option a loop over the
  values reaches last, so the registry is an association list: assigning to a key is
  \<open>AList.update\<close>, which replaces the value of a key in place and appends a new key.
\<close>

type_synonym 'w registry = "(string \<times> 'w Option) list"

text \<open>\<^verbatim>\<open>{**a, **b}\<close>: the keys of \<open>b\<close> are assigned, in order, to a copy of \<open>a\<close>.\<close>

definition dict_merge :: "'w registry \<Rightarrow> 'w registry \<Rightarrow> 'w registry" where
  "dict_merge a b = fold (\<lambda>(k, v) acc. AList.update k v acc) b a"

text \<open>
  A plugin class, as far as registration reads and writes it: its \<^verbatim>\<open>__name__\<close>, what
  the attribute \<^verbatim>\<open>takes_config\<close> resolves to on it (its own or an inherited one; \<open>None\<close>
  when \<^verbatim>\<open>hasattr\<close> is false), and its other attributes. Option names are taken not to
  be names of the class's own machinery.
\<close>

record 'w plugin_class =
  class_name :: string
  takes_config_attr :: "'w registry option"
  class_attrs :: "string \<rightharpoonup> 'w pyobj"

text \<open>
  A subclass with nothing declared in its body: attribute lookup finds what the parent
  has.
\<close>

definition new_subclass :: "string \<Rightarrow> 'w plugin_class \<Rightarrow> 'w plugin_class" where
  "new_subclass nm parent =
     \<lparr>class_name = nm, takes_config_attr = takes_config_attr parent,
      class_attrs = class_attrs parent\<rparr>"

text \<open>
  The first loop of \<^verbatim>\<open>wrapped\<close>. Besides the dictionary \<^verbatim>\<open>result\<close> it carries the local
  variable \<^verbatim>\<open>opt\<close>, which is unbound (\<open>None\<close>) until the loop has assigned it.
\<close>

fun options_loop ::
  "string \<Rightarrow> 'w pyobj list \<Rightarrow> 'w registry \<Rightarrow> 'w Option option \<Rightarrow>
   error + ('w registry \<times> 'w Option option)" where
  "options_loop plugin_name [] result opt = Inr (result, opt)"
| "options_loop plugin_name (OtherObj _ # rest) result opt =
     Inl (RuntimeError ''Specify config options by Option objects'')"
| "options_loop plugin_name (OptionObj ob # rest) result opt =
     (let ob = ob\<lparr>taken_by := Some plugin_name\<rparr>
      in options_loop plugin_name rest (AList.update (name ob) ob result) (Some ob))"

text \<open>
  The second loop, over \<^verbatim>\<open>result.values()\<close>, which uses the same local variable
  \<^verbatim>\<open>opt\<close>.
\<close>

fun collision_loop ::
  "'w registry \<Rightarrow> 'w Option list \<Rightarrow> 'w Option option \<Rightarrow> error + 'w Option option" where
  "collision_loop old [] opt = Inr opt"
| "collision_loop old (ob # rest) opt =
     (if name ob \<in> set (map fst old)
      then Inl (RuntimeError (''Attempt to specify option '' @ name ob @ '' twice''))
      else collision_loop old rest (Some ob))"

text \<open>
  \<^verbatim>\<open>hasattr(plugin_class, "takes_config") and len(plugin_class.takes_config)\<close>: the
  condition under which the class counts as already having options.
\<close>

fun has_options :: "'w registry option \<Rightarrow> bool" where
  "has_options None = False"
| "has_options (Some r) = (r \<noteq> [])"

text \<open>
  The last two statements of \<^verbatim>\<open>wrapped\<close>: reading \<^verbatim>\<open>opt\<close> fails when no loop has
  assigned it; a \<^verbatim>\<open>Config\<close> is installed with \<^verbatim>\<open>setattr\<close>.
\<close>

fun install_attribute ::
  "'w Option option \<Rightarrow> 'w plugin_class \<Rightarrow> (error + unit) \<times> 'w plugin_class" where
  "install_attribute None plugin_class = (Inl (UnboundLocalError ''opt''), plugin_class)"
| "install_attribute (Some ob) plugin_class =
     (if cls ob = Config_class
      then (Inr (),
            plugin_class\<lparr>class_attrs := (class_attrs plugin_class)(name ob \<mapsto> OptionObj ob)\<rparr>)
      else (Inr (), plugin_class))"

text \<open>
  \<^verbatim>\<open>wrapped\<close>, the decorator that \<^verbatim>\<open>takes_config(*options)\<close> returns. The class is
  changed in place, so the class after the call is part of the result also when the
  call raises. The option objects are changed in place too (\<^verbatim>\<open>taken_by\<close>); the result
  shows them as the registry and the installed attribute hold them.
\<close>

definition wrapped ::
  "'w pyobj list \<Rightarrow> 'w plugin_class \<Rightarrow> (error + unit) \<times> 'w plugin_class" where
  "wrapped options plugin_class =
     (case options_loop (class_name plugin_class) options [] None of
        Inl e \<Rightarrow> (Inl e, plugin_class)
      | Inr (result, opt) \<Rightarrow>
         (case (if has_options (takes_config_attr plugin_class)
                then takes_config_attr plugin_class else None) of
            Some old \<Rightarrow>
              (case collision_loop old (map snd result) opt of
                 Inl e \<Rightarrow> (Inl e, plugin_class)
               | Inr opt' \<Rightarrow>
                   install_attribute opt'
                     (plugin_class\<lparr>takes_config_attr := Some (dict_merge old result)\<rparr>))
          | None \<Rightarrow>
              install_attribute opt (plugin_class\<lparr>takes_config_attr := Some result\<rparr>)))"

definition takes_config ::
  "'w pyobj list \<Rightarrow> 'w plugin_class \<Rightarrow> (error + unit) \<times> 'w plugin_class" where
  "takes_config options = wrapped options"

text \<open>
  For stating what registration stores: an option after
  \<^verbatim>\<open>opt.taken_by = plugin_class.__name__\<close>, and the options that a call declares, by
  name, where a later option of the same name replaces an earlier one.
\<close>

definition stamp :: "string \<Rightarrow> 'w Option \<Rightarrow> 'w Option" where
  "stamp plugin_name ob = ob\<lparr>taken_by := Some plugin_name\<rparr>"

definition declared_options :: "string \<Rightarrow> 'w Option list \<Rightarrow> (string \<rightharpoonup> 'w Option)" where
  "declared_options plugin_name opts =
     map_of (rev (map (\<lambda>ob. (name ob, stamp plugin_name ob)) opts))"

text \<open>
  \<^verbatim>\<open>Config.__set_name__\<close>: the option is renamed and stamped, then merged into the
  owner's registry. The option after the call is part of the result.
\<close>

definition Config_set_name ::
  "'w Option \<Rightarrow> 'w plugin_class \<Rightarrow> string \<Rightarrow> (error + unit) \<times> 'w Option \<times> 'w plugin_class" where
  "Config_set_name self owner nm =
     (let self = self\<lparr>name := nm, taken_by := Some (class_name owner)\<rparr>;
          new_takes_config = [(nm, self)]
      in case (if has_options (takes_config_attr owner)
               then takes_config_attr owner else None) of
           Some old \<Rightarrow>
             (if nm \<in> set (map fst old)
              then (Inl (RuntimeError (''Attempt to specify option '' @ nm @ '' twice'')),
                    self, owner)
              else (Inr (), self,
                    owner\<lparr>takes_config_attr := Some (dict_merge old new_takes_config)\<rparr>))
         | None \<Rightarrow> (Inr (), self, owner\<lparr>takes_config_attr := Some new_takes_config\<rparr>))"

section \<open>Combining configurations\<close>

text \<open>
  \<^verbatim>\<open>combine_configs\<close> returns either a new mapping or one of its arguments, and what
  it changes is a matter of which object it writes to. So mappings live in a store: an
  object is its index in the list, a new object is appended.

  A mapping is a \<^verbatim>\<open>dict\<close> or an \<^verbatim>\<open>immutabledict\<close>, the class of mappings that the
  module imports for the registry. Both have the methods \<^verbatim>\<open>copy\<close> and \<^verbatim>\<open>update\<close>.
\<close>

datatype mapping_kind = Dict | Immutabledict

record mapping_object =
  kind :: mapping_kind
  items :: config

type_synonym store = "mapping_object list"

definition new_object :: "store \<Rightarrow> mapping_object \<Rightarrow> nat \<times> store" where
  "new_object h ob = (length h, h @ [ob])"

text \<open>\<^verbatim>\<open>m.copy()\<close>: a new object of the class of \<open>m\<close> with the items of \<open>m\<close>.\<close>

definition copy_method :: "store \<Rightarrow> nat \<Rightarrow> nat \<times> store" where
  "copy_method h m = new_object h (h ! m)"

text \<open>
  \<^verbatim>\<open>c.update(other)\<close> as a statement, its value dropped. A \<^verbatim>\<open>dict\<close> takes the items
  of \<open>other\<close> in place. An \<^verbatim>\<open>immutabledict\<close> stays as it is: its \<^verbatim>\<open>update\<close> builds
  and returns a new mapping, which a statement does not keep.
\<close>

definition update_method :: "store \<Rightarrow> nat \<Rightarrow> nat \<Rightarrow> store" where
  "update_method h c other =
     (case kind (h ! c) of
        Dict \<Rightarrow> h[c := (h ! c)\<lparr>items := items (h ! c) ++ items (h ! other)\<rparr>]
      | Immutabledict \<Rightarrow>
          snd (new_object h
                 \<lparr>kind = Immutabledict, items = items (h ! c) ++ items (h ! other)\<rparr>))"

text \<open>
  \<^verbatim>\<open>combine_configs(old_config, new_config, mode)\<close>; \<open>None\<close> for \<^verbatim>\<open>new_config\<close> is the
  default argument, for which \<^verbatim>\<open>dict()\<close> is made.
\<close>

function combine_configs ::
  "store \<Rightarrow> nat \<Rightarrow> nat option \<Rightarrow> string \<Rightarrow> (error + nat) \<times> store" where
  "combine_configs h old_config new_config mode =
     (let (new_config, h) =
            (case new_config of
               None \<Rightarrow> new_object h \<lparr>kind = Dict, items = Map.empty\<rparr>
             | Some a \<Rightarrow> (a, h))
      in if mode = ''update'' then
           (let (c, h) = copy_method h old_config;
                h = update_method h c new_config
            in (Inr c, h))
         else if mode = ''setdefault'' then
           combine_configs h new_config (Some old_config) ''update''
         else if mode = ''replace'' then (Inr new_config, h)
         else (Inl (RuntimeError
                 ''Expected update, setdefault or replace as config setting mode''), h))"
  by pat_completeness auto
termination
  by (relation "measure (\<lambda>(h, old, new, mode). if mode = ''setdefault'' then 1 else 0)") auto

section \<open>Generated bounds\<close>

text \<open>\<^verbatim>\<open>itertools.accumulate\<close>: the running sums.\<close>

fun accumulate_from :: "int \<Rightarrow> int list \<Rightarrow> int list" where
  "accumulate_from tot [] = []"
| "accumulate_from tot (x # xs) = (tot + x) # accumulate_from (tot + x) xs"

fun accumulate :: "int list \<Rightarrow> int list" where
  "accumulate [] = []"
| "accumulate (x # xs) = x # accumulate_from x xs"

text \<open>
  \<^verbatim>\<open>iterutils.chunked(src, size)\<close>: consecutive pieces of \<open>sz\<close> elements, the last
  one shorter when the length is no multiple. Its only call has \<open>sz = 2\<close>.
\<close>

function chunked :: "'a list \<Rightarrow> nat \<Rightarrow> 'a list list" where
  "chunked src sz =
     (if src = [] \<or> sz = 0 then [] else take sz src # chunked (drop sz src) sz)"
  by pat_completeness auto
termination
  by (relation "measure (\<lambda>(src, sz). length src)") auto

declare chunked.simps [simp del]

text \<open>
  What \<^verbatim>\<open>sorted_bounds\<close> makes of one drawn list of integers: \<open>None\<close> when a filter
  rejects the sample. The arguments \<^verbatim>\<open>max_value\<close> and \<^verbatim>\<open>max_len\<close> only bound the
  integers that are drawn (from 0 upwards) and are no arguments here. A tuple is the list of its components, and Python orders tuples
  as \<open>List_Lexorder\<close> orders lists. The order in which \<^verbatim>\<open>list(set(x))\<close> lists a set is
  not fixed by the language, so it is the parameter \<open>list_set\<close>.
\<close>

definition sorted_bounds ::
  "bool \<Rightarrow> bool \<Rightarrow> (int list list \<Rightarrow> int list list) \<Rightarrow> int list \<Rightarrow> int list list option" where
  "sorted_bounds disjoint remove_duplicates list_set drawn =
     (let s = (if disjoint then accumulate drawn else drawn)
      in if length s mod 2 \<noteq> 0 then None
         else
           (let x = chunked (sort s) 2
            in if \<not> list_all (\<lambda>a. a ! 0 \<noteq> a ! 1) x then None
               else if remove_duplicates \<and> x \<noteq> list_set x then None
               else Some (sort x)))"

section \<open>Sample inputs\<close>

text \<open>Concrete inputs at which the properties below are evaluated.\<close>

definition sample_store :: store where
  "sample_store =
     [\<lparr>kind = Dict, items = [''a'' \<mapsto> PInt 1, ''b'' \<mapsto> PInt 2]\<rparr>,
      \<lparr>kind = Dict, items = [''b'' \<mapsto> PInt 3, ''c'' \<mapsto> PInt 4]\<rparr>]"

text \<open>The same store with an \<^verbatim>\<open>immutabledict\<close> as its first mapping.\<close>

definition frozen_store :: store where
  "frozen_store =
     [\<lparr>kind = Immutabledict, items = [''a'' \<mapsto> PInt 1, ''b'' \<mapsto> PInt 2]\<rparr>,
      \<lparr>kind = Dict, items = [''b'' \<mapsto> PInt 3, ''c'' \<mapsto> PInt 4]\<rparr>]"

text \<open>
  Stand-ins for the code outside the repository: a hash that prints the length of the
  table, and \<^verbatim>\<open>int\<close> on unsigned decimal literals.
\<close>

definition digit_of :: "char \<Rightarrow> nat" where
  "digit_of c = of_char c - 48"

definition is_digit :: "char \<Rightarrow> bool" where
  "is_digit c = (48 \<le> (of_char c :: nat) \<and> (of_char c :: nat) \<le> 57)"

definition decimal_literal :: "string \<Rightarrow> error + int" where
  "decimal_literal s =
     (if s \<noteq> [] \<and> list_all is_digit s
      then Inr (int (foldl (\<lambda>acc c. 10 * acc + digit_of c) 0 s))
      else Inl (ValueError ''invalid literal for int() with base 10''))"

definition sample_externals :: externals where
  "sample_externals =
     \<lparr>deterministic_hash = (\<lambda>table. str_nat (length table)), int_of_str = decimal_literal\<rparr>"

text \<open>An option without any default, as \<^verbatim>\<open>Option("x")\<close> constructs it.\<close>

definition bare_option :: "nat Option" where
  "bare_option =
     \<lparr>cls = Option_class, name = ''x'', type = None, default_value = None,
      default_by_run = None, default_factory = None, track = True, help_text = [],
      child_option = False, parent_option_name = None, taken_by = None\<rparr>"

definition option_named :: "option_class \<Rightarrow> string \<Rightarrow> nat Option" where
  "option_named c nm = bare_option\<lparr>cls := c, name := nm\<rparr>"

text \<open>The table of the specification's example.\<close>

definition abc_option :: "nat Option" where
  "abc_option =
     bare_option\<lparr>default_by_run :=
       Some (Table [(0, PStr ''a''), (5, PStr ''b''), (10, PStr ''c'')])\<rparr>"

text \<open>A factory that counts its calls in the state.\<close>

definition counting_factory :: "nat \<Rightarrow> (error + pyval) \<times> nat" where
  "counting_factory n = (Inr (PInt (int n)), Suc n)"

definition configured_plugin :: plugin where
  "configured_plugin = \<lparr>config_attr = Some [''x'' \<mapsto> PInt 5], run_id_attr = RunStr ''7''\<rparr>"

text \<open>A class without a registry, and a class that has registered the option \<open>x\<close>.\<close>

definition bare_class :: "nat plugin_class" where
  "bare_class = \<lparr>class_name = ''Records'', takes_config_attr = None, class_attrs = Map.empty\<rparr>"

definition parent_class :: "nat plugin_class" where
  "parent_class =
     \<lparr>class_name = ''Parent'',
      takes_config_attr = Some [(''x'', stamp ''Parent'' bare_option)],
      class_attrs = Map.empty\<rparr>"

text \<open>
  The arguments \<^verbatim>\<open>Config(name="a"), Config(name="b"), Option("a")\<close>: the final one is
  no \<^verbatim>\<open>Config\<close> and shares its name with the first.
\<close>

definition repeated_name_options :: "nat pyobj list" where
  "repeated_name_options =
     [OptionObj (option_named Config_class ''a''), OptionObj (option_named Config_class ''b''),
      OptionObj (option_named Option_class ''a'')]"

section \<open>Properties of the option model\<close>

subsection \<open>Combining configurations\<close>

lemma store_unchanged_below:
  "a < length h \<Longrightarrow> (h @ [d]) ! a = h ! a"
  by (simp add: nth_append)

text \<open>
  Claim C5, amended. For mappings \<open>old\<close> and \<open>new\<close> of the store: mode \<^verbatim>\<open>"update"\<close>,
  when \<open>old\<close> is a \<^verbatim>\<open>dict\<close>, returns a new \<^verbatim>\<open>dict\<close>, \<open>old\<close> overlaid with \<open>new\<close>
  (\<open>new\<close> wins on a common key); mode \<^verbatim>\<open>"setdefault"\<close>, when \<open>new\<close> is a \<^verbatim>\<open>dict\<close>,
  returns a new \<^verbatim>\<open>dict\<close>, \<open>new\<close> overlaid with \<open>old\<close> (\<open>old\<close> wins); mode
  \<^verbatim>\<open>"replace"\<close> returns the object \<open>new\<close> itself and allocates nothing; any other
  mode raises. In every mode, and for mappings of either class, the objects that
  existed before the call, the two arguments among them, are what they were.
\<close>

theorem combine_configs_modes:
  assumes "old < length h" and "new < length h"
  shows "(kind (h ! old) = Dict \<longrightarrow>
            combine_configs h old (Some new) ''update''
              = (Inr (length h),
                 h @ [\<lparr>kind = Dict, items = items (h ! old) ++ items (h ! new)\<rparr>]))
       \<and> (kind (h ! new) = Dict \<longrightarrow>
            combine_configs h old (Some new) ''setdefault''
              = (Inr (length h),
                 h @ [\<lparr>kind = Dict, items = items (h ! new) ++ items (h ! old)\<rparr>]))
       \<and> combine_configs h old (Some new) ''replace'' = (Inr new, h)
       \<and> (mode \<noteq> ''update'' \<and> mode \<noteq> ''setdefault'' \<and> mode \<noteq> ''replace'' \<longrightarrow>
            combine_configs h old (Some new) mode
              = (Inl (RuntimeError
                   ''Expected update, setdefault or replace as config setting mode''), h))
       \<and> take (length h) (snd (combine_configs h old (Some new) mode)) = h"
proof -
  have u: "combine_configs h a (Some b) ''update''
             = (Inr (length h), h @ [\<lparr>kind = Dict, items = items (h ! a) ++ items (h ! b)\<rparr>])"
    if "a < length h" "b < length h" "kind (h ! a) = Dict" for a b
    using that
    by (simp add: new_object_def copy_method_def update_method_def nth_append)
  have k: "take (length h) (snd (combine_configs h a (Some b) ''update'')) = h"
    if "a < length h" "b < length h" for a b
    using that
    by (cases "kind (h ! a)")
       (simp_all add: new_object_def copy_method_def update_method_def nth_append)
  have s: "combine_configs h old (Some new) ''setdefault''
             = combine_configs h new (Some old) ''update''"
    by simp
  have r: "combine_configs h old (Some new) ''replace'' = (Inr new, h)"
    by simp
  have e: "combine_configs h old (Some new) mode
              = (Inl (RuntimeError
                   ''Expected update, setdefault or replace as config setting mode''), h)"
    if "mode \<noteq> ''update''" "mode \<noteq> ''setdefault''" "mode \<noteq> ''replace''"
    using that by simp
  have t: "take (length h) (snd (combine_configs h old (Some new) mode)) = h"
  proof (cases "mode = ''update''")
    case True
    with k [OF assms] show ?thesis by simp
  next
    case False
    show ?thesis
    proof (cases "mode = ''setdefault''")
      case True
      with k [OF assms(2) assms(1)] s show ?thesis by simp
    next
      case False
      with \<open>mode \<noteq> ''update''\<close> show ?thesis
        by (cases "mode = ''replace''") simp_all
    qed
  qed
  from u [OF assms] u [OF assms(2) assms(1)] s r e t show ?thesis
    by (simp del: combine_configs.simps)
qed

text \<open>
  The claim as stated speaks of all mappings. With the \<^verbatim>\<open>immutabledict\<close>
  \<^verbatim>\<open>{"a":1,"b":2}\<close> as \<open>old\<close> and \<^verbatim>\<open>{"b":3,"c":4}\<close> as \<open>new\<close>, mode \<^verbatim>\<open>"update"\<close>
  returns the copy of \<open>old\<close> as it is: the mapping that \<^verbatim>\<open>update\<close> builds is not
  kept, so \<open>b\<close> is still 2 and \<open>c\<close> is missing.
\<close>

theorem combine_configs_immutabledict_counterexample:
  "fst (combine_configs frozen_store 0 (Some 1) ''update'') = Inr 2
   \<and> items (snd (combine_configs frozen_store 0 (Some 1) ''update'') ! 2)
       = [''a'' \<mapsto> PInt 1, ''b'' \<mapsto> PInt 2]
   \<and> items (snd (combine_configs frozen_store 0 (Some 1) ''update'') ! 2) ''b''
       = Some (PInt 2)
   \<and> items (snd (combine_configs frozen_store 0 (Some 1) ''update'') ! 2) ''c'' = None"
  by (simp add: frozen_store_def new_object_def copy_method_def update_method_def)

text \<open>
  The example of the specification: the dictionaries \<^verbatim>\<open>{"a":1,"b":2}\<close> and
  \<^verbatim>\<open>{"b":3,"c":4}\<close> in the three modes and in an unknown one.
\<close>

theorem combine_configs_modes_witness:
  "combine_configs sample_store 0 (Some 1) ''update''
       = (Inr 2, sample_store
            @ [\<lparr>kind = Dict, items = [''a'' \<mapsto> PInt 1, ''b'' \<mapsto> PInt 3, ''c'' \<mapsto> PInt 4]\<rparr>])
   \<and> combine_configs sample_store 0 (Some 1) ''setdefault''
       = (Inr 2, sample_store
            @ [\<lparr>kind = Dict, items = [''c'' \<mapsto> PInt 4, ''a'' \<mapsto> PInt 1, ''b'' \<mapsto> PInt 2]\<rparr>])
   \<and> combine_configs sample_store 0 (Some 1) ''replace'' = (Inr 1, sample_store)
   \<and> combine_configs sample_store 0 (Some 1) ''merge''
       = (Inl (RuntimeError
            ''Expected update, setdefault or replace as config setting mode''), sample_store)
   \<and> take 2 (snd (combine_configs sample_store 0 (Some 1) ''merge'')) = sample_store"
proof -
  have l: "length sample_store = 2" by (simp add: sample_store_def)
  have a: "sample_store ! 0 = \<lparr>kind = Dict, items = [''a'' \<mapsto> PInt 1, ''b'' \<mapsto> PInt 2]\<rparr>"
    and b: "sample_store ! 1 = \<lparr>kind = Dict, items = [''b'' \<mapsto> PInt 3, ''c'' \<mapsto> PInt 4]\<rparr>"
    by (simp_all add: sample_store_def)
  have h0: "0 < length sample_store" and h1: "1 < length sample_store" using l by simp_all
  have m: "''merge'' \<noteq> ''update'' \<and> ''merge'' \<noteq> ''setdefault'' \<and> ''merge'' \<noteq> ''replace''"
    by simp
  show ?thesis
    using combine_configs_modes [OF h0 h1, of "''merge''"] m l
    unfolding a b by (simp del: combine_configs.simps)
qed

subsection \<open>Construction\<close>

lemma bare_option_init:
  "Option_init Option_class ''x'' None None None None False None True False [] = Inr bare_option"
  by (simp add: Option_init_def bare_option_def)

text \<open>
  Claim C6, amended. Construction raises (\<^verbatim>\<open>ValueError\<close>) exactly when \<^verbatim>\<open>child_option\<close>
  and the truth value of \<^verbatim>\<open>parent_option_name\<close> differ, where \<^verbatim>\<open>None\<close> and the empty
  string are both false; otherwise it raises (\<^verbatim>\<open>RuntimeError\<close>) when two or more of
  \<^verbatim>\<open>default\<close>, \<^verbatim>\<open>default_factory\<close>, \<^verbatim>\<open>default_by_run\<close> are supplied; otherwise it
  succeeds, and the object holds the arguments and no \<^verbatim>\<open>taken_by\<close>.
\<close>

theorem Option_init_errors:
  "((child \<noteq> truthy parent) \<longrightarrow>
      Option_init c nm tp dflt factory per_run child parent trk infer_type hlp
        = (Inl (ValueError
             (''You have to specify both, '' @ [CHR 0x22] @ ''child_option'' @ [CHR 0x22]
              @ ''=True and the name of the parent option which should be ''
              @ ''overwritten by the child. Options which are unique ''
              @ ''to the child should not be marked as a child option.''
              @ ''Please update '' @ nm @ '' accordingly.'')) :: error + 'w Option))
   \<and> ((child = truthy parent) \<longrightarrow>
        (((dflt \<noteq> None \<and> factory \<noteq> None) \<or> (dflt \<noteq> None \<and> per_run \<noteq> None)
           \<or> (factory \<noteq> None \<and> per_run \<noteq> None)) \<longrightarrow>
           Option_init c nm tp dflt factory per_run child parent trk infer_type hlp
             = (Inl (RuntimeError
                  (''Tried to specify more than one default for option '' @ nm @ ''.''))
                :: error + 'w Option))
        \<and> (\<not> ((dflt \<noteq> None \<and> factory \<noteq> None) \<or> (dflt \<noteq> None \<and> per_run \<noteq> None)
              \<or> (factory \<noteq> None \<and> per_run \<noteq> None)) \<longrightarrow>
             (\<exists>self :: 'w Option.
                Option_init c nm tp dflt factory per_run child parent trk infer_type hlp
                  = Inr self
                \<and> cls self = c \<and> name self = nm \<and> default_value self = dflt
                \<and> default_factory self = factory \<and> default_by_run self = per_run
                \<and> child_option self = child \<and> parent_option_name self = parent
                \<and> track self = trk \<and> help_text self = hlp \<and> taken_by self = None)))"
  by (auto simp add: Option_init_def Let_def split: option.splits bool.splits)

text \<open>
  The claim as stated counts a \<^verbatim>\<open>parent_option_name\<close> as supplied when it is not
  \<^verbatim>\<open>None\<close>. With the empty string as the parent's name, a child option is rejected
  although both were supplied, and an option that is no child is accepted although only
  the parent's name was supplied.
\<close>

theorem Option_init_empty_parent_counterexample:
  "(Option_init Option_class ''x'' None None None None True (Some []) True False []
      :: error + nat Option)
     = Inl (ValueError
         (''You have to specify both, '' @ [CHR 0x22] @ ''child_option'' @ [CHR 0x22]
          @ ''=True and the name of the parent option which should be ''
          @ ''overwritten by the child. Options which are unique ''
          @ ''to the child should not be marked as a child option.''
          @ ''Please update x accordingly.''))
   \<and> isl (Option_init Option_class ''y'' None None None None False (Some []) True False []
      :: error + nat Option) = False"
  by (simp add: Option_init_def)

theorem Option_init_errors_witness:
  "isl (Option_init Option_class ''x'' None None None None True None True False []
          :: error + nat Option)
   \<and> isl (Option_init Option_class ''x'' None None None None False (Some ''p'') True False []
          :: error + nat Option)
   \<and> (Option_init Option_class ''x'' None (Some (PInt 0)) (Some counting_factory) None
          False None True False [] :: error + nat Option)
       = Inl (RuntimeError ''Tried to specify more than one default for option x.'')
   \<and> (Option_init Option_class ''x'' None None None None False None True False []
          :: error + nat Option) = Inr bare_option
   \<and> \<not> isl (Option_init Option_class ''c'' None (Some (PInt 4)) None None True (Some ''p'')
          True False [] :: error + nat Option)"
proof -
  let ?none = "None :: (nat \<Rightarrow> (error + pyval) \<times> nat) option"
  have 1: "isl (Option_init Option_class ''x'' None None None None True None True False []
          :: error + nat Option)"
    using Option_init_errors
      [of True None Option_class "''x''" None None ?none None True False "[]"]
    by simp
  have 2: "isl (Option_init Option_class ''x'' None None None None False (Some ''p'') True False []
          :: error + nat Option)"
    using Option_init_errors
      [of False "Some ''p''" Option_class "''x''" None None ?none None True False "[]"]
    by simp
  have 3: "(Option_init Option_class ''x'' None (Some (PInt 0)) (Some counting_factory) None
          False None True False [] :: error + nat Option)
       = Inl (RuntimeError ''Tried to specify more than one default for option x.'')"
    using Option_init_errors
      [of False None Option_class "''x''" None "Some (PInt 0)" "Some counting_factory" None
          True False "[]"]
    by simp
  have 4: "(Option_init Option_class ''x'' None None None None False None True False []
          :: error + nat Option) = Inr bare_option"
    using Option_init_errors
      [of False None Option_class "''x''" None None ?none None True False "[]"]
    by (auto simp add: bare_option_def Option_init_def)
  have 5: "\<not> isl (Option_init Option_class ''c'' None (Some (PInt 4)) None None True (Some ''p'')
          True False [] :: error + nat Option)"
    using Option_init_errors
      [of True "Some ''p''" Option_class "''c''" None "Some (PInt 4)" ?none None True False "[]"]
    by auto
  show ?thesis using 1 2 3 4 5 by blast
qed

subsection \<open>Defaults\<close>

text \<open>
  Claim C1, amended. \<^verbatim>\<open>get_default\<close> goes by this order: the value that
  \<^verbatim>\<open>run_defaults\<close> holds under the option's name, whatever defaults the option has;
  else the static default; else the result of calling the factory in the current state,
  on every call, nothing being kept in the option; else the per-run resolution; else,
  for an option whose \<^verbatim>\<open>taken_by\<close> registration has set, \<^verbatim>\<open>InvalidConfiguration\<close> with a
  message naming the option and that plugin.
\<close>

theorem get_default_priority:
  "(run_defaults = Some rd \<and> rd (name self) = Some v \<longrightarrow>
      get_default ext self run_id run_defaults w = (Inr v, w))
   \<and> ((case run_defaults of None \<Rightarrow> None | Some rd \<Rightarrow> rd (name self)) = None \<longrightarrow>
      (default_value self = Some d \<longrightarrow>
         get_default ext self run_id run_defaults w = (Inr d, w))
      \<and> (default_value self = None \<longrightarrow>
           (default_factory self = Some factory \<longrightarrow>
              get_default ext self run_id run_defaults w = factory w)
           \<and> (default_factory self = None \<longrightarrow>
                (default_by_run self = Some by_run \<longrightarrow>
                   get_default ext self run_id run_defaults w
                     = (per_run_default ext run_id by_run, w))
                \<and> (default_by_run self = None \<and> taken_by self = Some plugin \<longrightarrow>
                     get_default ext self run_id run_defaults w
                       = (Inl (InvalidConfiguration
                            (''Missing option '' @ name self @ '' required by '' @ plugin)),
                          w)))))"
  by (simp add: get_default_def)

text \<open>
  The claim as stated speaks of every option. An option that was constructed and never
  registered has no attribute \<^verbatim>\<open>taken_by\<close>; without any default, building the message
  fails and the error is an \<^verbatim>\<open>AttributeError\<close>, not \<^verbatim>\<open>InvalidConfiguration\<close>.
\<close>

theorem get_default_unregistered_counterexample:
  "default_value bare_option = None \<and> default_factory bare_option = None
   \<and> default_by_run bare_option = None
   \<and> get_default sample_externals bare_option RunNone None (0::nat)
       = (Inl (AttributeError
            ([CHR 0x27] @ ''Option'' @ [CHR 0x27] @ '' object has no attribute ''
             @ [CHR 0x27] @ ''taken_by'' @ [CHR 0x27])), 0)"
  by (simp add: get_default_def bare_option_def)

text \<open>
  One input for each step of the order; the factory is called in the state 0 and then
  in the state 1, and returns a different value each time.
\<close>

theorem get_default_priority_witness:
  "get_default sample_externals (bare_option\<lparr>default_value := Some (PInt 1)\<rparr>) RunNone
       (Some [''x'' \<mapsto> PInt 2]) (0::nat) = (Inr (PInt 2), 0)
   \<and> get_default sample_externals (bare_option\<lparr>default_value := Some (PInt 1)\<rparr>) RunNone
       (Some [''y'' \<mapsto> PInt 2]) (0::nat) = (Inr (PInt 1), 0)
   \<and> get_default sample_externals (bare_option\<lparr>default_factory := Some counting_factory\<rparr>)
       RunNone None 0 = (Inr (PInt 0), 1)
   \<and> get_default sample_externals (bare_option\<lparr>default_factory := Some counting_factory\<rparr>)
       RunNone None 1 = (Inr (PInt 1), 2)
   \<and> get_default sample_externals
        (bare_option\<lparr>default_by_run := Some (Table [(0, PInt 0), (1, PInt 1)])\<rparr>)
        (RunInt 1) None 0 = (Inr (PInt 1), 0)
   \<and> get_default sample_externals (bare_option\<lparr>taken_by := Some ''Records''\<rparr>) RunNone None 0
       = (Inl (InvalidConfiguration ''Missing option x required by Records''), 0)"
proof -
  let ?a = "bare_option\<lparr>default_value := Some (PInt 1)\<rparr>"
  let ?f = "bare_option\<lparr>default_factory := Some counting_factory\<rparr>"
  let ?t = "bare_option\<lparr>default_by_run := Some (Table [(0, PInt 0), (1, PInt 1)])\<rparr>"
  let ?n = "bare_option\<lparr>taken_by := Some ''Records''\<rparr>"
  have 1: "get_default sample_externals ?a RunNone (Some [''x'' \<mapsto> PInt 2]) (0::nat)
             = (Inr (PInt 2), 0)"
    using get_default_priority
      [of "Some [''x'' \<mapsto> PInt 2]" "[''x'' \<mapsto> PInt 2]" ?a "PInt 2" sample_externals RunNone 0]
    by (simp add: bare_option_def)
  have 2: "get_default sample_externals ?a RunNone (Some [''y'' \<mapsto> PInt 2]) (0::nat)
             = (Inr (PInt 1), 0)"
    using get_default_priority
      [of "Some [''y'' \<mapsto> PInt 2]" _ ?a _ sample_externals RunNone 0 "PInt 1"]
    by (simp add: bare_option_def)
  have 3: "get_default sample_externals ?f RunNone None n = counting_factory n" for n
    using get_default_priority
      [of None _ ?f _ sample_externals RunNone n _ counting_factory]
    by (simp add: bare_option_def)
  have 4: "get_default sample_externals ?t (RunInt 1) None (0::nat)
             = (per_run_default sample_externals (RunInt 1) (Table [(0, PInt 0), (1, PInt 1)]), 0)"
    using get_default_priority
      [of None _ ?t _ sample_externals "RunInt 1" 0 _ _ "Table [(0, PInt 0), (1, PInt 1)]"]
    by (simp add: bare_option_def)
  have 5: "get_default sample_externals ?n RunNone None (0::nat)
             = (Inl (InvalidConfiguration (''Missing option '' @ name ?n @ '' required by ''
                  @ ''Records'')), 0)"
    using get_default_priority
      [of None _ ?n _ sample_externals RunNone 0 _ _ _ "''Records''"]
    by (simp add: bare_option_def)
  show ?thesis
    unfolding 1 2 3 4 5
    by (simp add: counting_factory_def per_run_default_def bare_option_def)
qed

subsection \<open>Per-run defaults\<close>

lemma use_value_loop_beyond:
  "\<forall>p \<in> set table. run < fst p \<Longrightarrow> use_value_loop run table u = u"
  by (cases table) auto

text \<open>
  On a table in ascending order the loop, which stops at the first later pair, has seen
  every pair that is not later.
\<close>

lemma use_value_loop_sorted:
  "sorted (map fst table) \<Longrightarrow>
   use_value_loop run table u
     = (case filter (\<lambda>p. fst p \<le> run) table of [] \<Rightarrow> u | q # qs \<Rightarrow> Some (snd (last (q # qs))))"
proof (induction table arbitrary: u)
  case Nil
  then show ?case by simp
next
  case (Cons p table)
  obtain start_run v where p: "p = (start_run, v)" by (cases p)
  show ?case
  proof (cases "start_run > run")
    case True
    with Cons.prems p have "\<forall>q \<in> set (p # table). run < fst q" by auto
    then have "filter (\<lambda>q. fst q \<le> run) (p # table) = []" by (auto simp: filter_empty_conv)
    with True p show ?thesis by simp
  next
    case False
    from Cons.prems have "sorted (map fst table)" by simp
    from Cons.IH [OF this, of "Some v"] False p show ?thesis
      by (simp split: list.splits)
  qed
qed

lemma resolve_run_id_cases:
  "run_id = RunInt i \<or> (run_id = RunNone \<and> i = 0)
     \<or> (\<exists>s. run_id = RunStr s \<and> \<not> startswith_underscore s
              \<and> int_of_str ext (remove_underscores s) = Inr i)
   \<Longrightarrow> resolve_run_id ext run_id = Inr (Run i)"
  by auto

text \<open>
  Claim C2. Let the option have no static default and no factory, and as
  \<^verbatim>\<open>default_by_run\<close> a table of pairs in ascending order of their run ids, and let
  \<^verbatim>\<open>run_defaults\<close> not hold the option. On a string that starts with an underscore,
  \<^verbatim>\<open>get_default\<close> returns \<^verbatim>\<open>"<SUBRUN-DEPENDENT:"\<close>, the hash of the table, \<^verbatim>\<open>">"\<close>. On
  a run id that stands for the integer \<open>i\<close> (an integer, \<^verbatim>\<open>None\<close> for 0, or a string
  without leading underscore that \<^verbatim>\<open>int\<close> reads as \<open>i\<close> once its underscores are
  removed) it returns the value of the last pair whose run id is at most \<open>i\<close>, when
  there is one, and raises \<^verbatim>\<open>ValueError\<close> when \<open>i\<close> is below every run id of the table.
\<close>

theorem get_default_by_run:
  assumes "default_value self = None" and "default_factory self = None"
    and "default_by_run self = Some (Table table)"
    and "sorted (map fst table)"
    and "(case run_defaults of None \<Rightarrow> None | Some rd \<Rightarrow> rd (name self)) = None"
  shows "(startswith_underscore s \<longrightarrow>
            get_default ext self (RunStr s) run_defaults w
              = (Inr (PStr (''<SUBRUN-DEPENDENT:'' @ deterministic_hash ext table @ ''>'')), w))
       \<and> (run_id = RunInt i \<or> (run_id = RunNone \<and> i = 0)
            \<or> (\<exists>r. run_id = RunStr r \<and> \<not> startswith_underscore r
                     \<and> int_of_str ext (remove_underscores r) = Inr i) \<longrightarrow>
            (filter (\<lambda>p. fst p \<le> i) table \<noteq> [] \<longrightarrow>
               get_default ext self run_id run_defaults w
                 = (Inr (snd (last (filter (\<lambda>p. fst p \<le> i) table))), w))
            \<and> ((\<forall>p \<in> set table. i < fst p) \<longrightarrow>
                 get_default ext self run_id run_defaults w
                   = (Inl (ValueError
                        (''Run id '' @ str_int i @ '' is smaller than the ''
                         @ ''lowest run id {start_run} for which the default ''
                         @ ''of the option {self.name} is known.'')), w)))"
proof -
  have g: "get_default ext self rid run_defaults w
             = (per_run_default ext rid (Table table), w)" for rid
    using assms(1,2,3,5) by (simp add: get_default_def)
  have a: "get_default ext self (RunStr s) run_defaults w
              = (Inr (PStr (''<SUBRUN-DEPENDENT:'' @ deterministic_hash ext table @ ''>'')), w)"
    if "startswith_underscore s"
    using that by (simp add: g per_run_default_def)
  have b: "get_default ext self run_id run_defaults w
                 = (Inr (snd (last (filter (\<lambda>p. fst p \<le> i) table))), w)"
    if "resolve_run_id ext run_id = Inr (Run i)" and "filter (\<lambda>p. fst p \<le> i) table \<noteq> []"
    using that use_value_loop_sorted [OF assms(4), of i None]
    by (simp add: g per_run_default_def split: list.splits)
  have c: "get_default ext self run_id run_defaults w
                   = (Inl (ValueError
                        (''Run id '' @ str_int i @ '' is smaller than the ''
                         @ ''lowest run id {start_run} for which the default ''
                         @ ''of the option {self.name} is known.'')), w)"
    if "resolve_run_id ext run_id = Inr (Run i)" and "\<forall>p \<in> set table. i < fst p"
    using that use_value_loop_beyond [OF that(2), of None]
    by (simp add: g per_run_default_def)
  show ?thesis
    using a b c resolve_run_id_cases [of run_id i ext] by blast
qed

lemma abc_option_facts:
  "default_value abc_option = None" "default_factory abc_option = None"
  "default_by_run abc_option = Some (Table [(0, PStr ''a''), (5, PStr ''b''), (10, PStr ''c'')])"
  "sorted (map fst [(0::int, PStr ''a''), (5, PStr ''b''), (10, PStr ''c'')])"
  "(case None :: config option of None \<Rightarrow> None | Some rd \<Rightarrow> rd (name abc_option)) = None"
  by (simp_all add: abc_option_def bare_option_def)

text \<open>
  The table \<^verbatim>\<open>[(0, "a"), (5, "b"), (10, "c")]\<close> at a super-run, at the runs 3, 7 and
  10, at \<^verbatim>\<open>None\<close>, at the string \<^verbatim>\<open>"00_7"\<close> and at a run below the table.
\<close>

theorem get_default_by_run_witness:
  "get_default sample_externals abc_option (RunStr ''_0007'') None (0::nat)
     = (Inr (PStr ''<SUBRUN-DEPENDENT:3>''), 0)
   \<and> get_default sample_externals abc_option (RunInt 3) None 0 = (Inr (PStr ''a''), 0)
   \<and> get_default sample_externals abc_option (RunInt 7) None 0 = (Inr (PStr ''b''), 0)
   \<and> get_default sample_externals abc_option (RunInt 10) None 0 = (Inr (PStr ''c''), 0)
   \<and> get_default sample_externals abc_option RunNone None 0 = (Inr (PStr ''a''), 0)
   \<and> get_default sample_externals abc_option (RunStr ''00_7'') None 0 = (Inr (PStr ''b''), 0)
   \<and> get_default sample_externals abc_option (RunInt (- 2)) None 0
     = (Inl (ValueError
          (''Run id -2 is smaller than the lowest run id {start_run} for which ''
           @ ''the default of the option {self.name} is known.'')), 0)"
proof -
  note th = get_default_by_run [OF abc_option_facts, of _ sample_externals 0]
  have s: "get_default sample_externals abc_option (RunStr ''_0007'') None (0::nat)
     = (Inr (PStr ''<SUBRUN-DEPENDENT:3>''), 0)"
    using th [of "''_0007''" RunNone 0, THEN conjunct1]
    by (simp add: sample_externals_def digit_char_def)
  have r: "get_default sample_externals abc_option (RunInt k) None 0
             = (Inr (snd (last (filter (\<lambda>p. fst p \<le> k)
                  [(0, PStr ''a''), (5, PStr ''b''), (10, PStr ''c'')]))), 0)"
    if "0 \<le> k" for k
    using th [of "[]" "RunInt k" k, THEN conjunct2] that by simp
  have n: "get_default sample_externals abc_option RunNone None 0 = (Inr (PStr ''a''), 0)"
    using th [of "[]" RunNone 0, THEN conjunct2] by simp
  have p: "int_of_str sample_externals (remove_underscores ''00_7'') = Inr 7"
    by (simp add: sample_externals_def remove_underscores_def decimal_literal_def
        is_digit_def digit_of_def)
  have t: "get_default sample_externals abc_option (RunStr ''00_7'') None 0
             = (Inr (PStr ''b''), 0)"
    using th [of "[]" "RunStr ''00_7''" 7, THEN conjunct2] p by simp
  have e: "get_default sample_externals abc_option (RunInt (- 2)) None 0
     = (Inl (ValueError
          (''Run id -2 is smaller than the lowest run id {start_run} for which ''
           @ ''the default of the option {self.name} is known.'')), 0)"
    using th [of "[]" "RunInt (- 2)" "- 2", THEN conjunct2]
    by (simp add: str_int_def digit_char_def)
  show ?thesis
    unfolding s n t e by (simp add: r)
qed

subsection \<open>Validation\<close>





subsection \<open>Attribute-bound options\<close>

text \<open>
  Claim C7. Reading the attribute on a plugin without \<^verbatim>\<open>config\<close> raises
  \<^verbatim>\<open>AttributeError\<close>; on a plugin with \<^verbatim>\<open>config\<close> it returns the value under the
  option's name when there is one and \<^verbatim>\<open>get_default(plugin.run_id)\<close> otherwise. Writing
  the attribute raises \<^verbatim>\<open>AttributeError\<close> with the message that the name is a plugin
  configuration and cannot be set directly, for every value, and leaves the option and
  the plugin as they were.
\<close>

theorem Config_attribute_access:
  "(config_attr obj = None \<longrightarrow>
      Config_get ext self obj w = (Inl (AttributeError ''Plugin has not been configured.''), w))
   \<and> (config_attr obj = Some config \<longrightarrow>
        (config (name self) = Some v \<longrightarrow> Config_get ext self obj w = (Inr v, w))
        \<and> (config (name self) = None \<longrightarrow>
             Config_get ext self obj w = get_default ext self (run_id_attr obj) None w))
   \<and> Config_set self obj written
       = (Inl (AttributeError
            (name self @ '' is a plugin configuration and cannot be set directly.'')),
          self, obj)"
  by (simp add: Config_get_def fetch_def Config_set_def)

theorem Config_attribute_access_witness:
  "Config_get sample_externals (bare_option\<lparr>cls := Config_class\<rparr>)
       (configured_plugin\<lparr>config_attr := None\<rparr>) (0::nat)
     = (Inl (AttributeError ''Plugin has not been configured.''), 0)
   \<and> Config_get sample_externals (bare_option\<lparr>cls := Config_class\<rparr>) configured_plugin 0
     = (Inr (PInt 5), 0)
   \<and> Config_get sample_externals
        (bare_option\<lparr>cls := Config_class, name := ''y'', default_value := Some (PInt 1)\<rparr>)
        configured_plugin 0
     = (Inr (PInt 1), 0)
   \<and> Config_set (bare_option\<lparr>cls := Config_class\<rparr>) configured_plugin (PInt 9)
     = (Inl (AttributeError ''x is a plugin configuration and cannot be set directly.''),
        bare_option\<lparr>cls := Config_class\<rparr>, configured_plugin)"
proof -
  let ?c = "bare_option\<lparr>cls := Config_class\<rparr>"
  let ?y = "bare_option\<lparr>cls := Config_class, name := ''y'', default_value := Some (PInt 1)\<rparr>"
  have 1: "Config_get sample_externals ?c (configured_plugin\<lparr>config_attr := None\<rparr>) (0::nat)
     = (Inl (AttributeError ''Plugin has not been configured.''), 0)"
    using Config_attribute_access
      [of "configured_plugin\<lparr>config_attr := None\<rparr>" sample_externals ?c 0]
    by simp
  have 2: "Config_get sample_externals ?c configured_plugin 0 = (Inr (PInt 5), 0)"
    using Config_attribute_access
      [of configured_plugin sample_externals ?c 0 "[''x'' \<mapsto> PInt 5]" "PInt 5"]
    by (simp add: configured_plugin_def bare_option_def)
  have 3: "Config_get sample_externals ?y configured_plugin 0
             = get_default sample_externals ?y (RunStr ''7'') None 0"
    using Config_attribute_access
      [of configured_plugin sample_externals ?y 0 "[''x'' \<mapsto> PInt 5]"]
    by (simp add: configured_plugin_def bare_option_def)
  have 4: "Config_set ?c configured_plugin (PInt 9)
     = (Inl (AttributeError ''x is a plugin configuration and cannot be set directly.''),
        ?c, configured_plugin)"
    using Config_attribute_access [of configured_plugin _ ?c _ _ _ "PInt 9"]
    by (simp add: bare_option_def)
  show ?thesis
    unfolding 1 2 3 4 by (simp add: get_default_def bare_option_def)
qed

subsection \<open>Registration\<close>

lemma name_stamp [simp]: "name (stamp cn ob) = name ob"
  by (simp add: stamp_def)

lemma cls_stamp [simp]: "cls (stamp cn ob) = cls ob"
  by (simp add: stamp_def)

text \<open>The first loop on arguments that are all options.\<close>

lemma options_loop_options:
  "options_loop cn (map OptionObj opts) result opt
     = Inr (fold (\<lambda>ob. AList.update (name ob) (stamp cn ob)) opts result,
            if opts = [] then opt else Some (stamp cn (last opts)))"
  by (induction opts arbitrary: result opt) (simp_all add: stamp_def Let_def)

lemma map_of_fold_update:
  "map_of (fold (\<lambda>ob. AList.update (k ob) (f ob)) opts result)
     = map_of result ++ map_of (rev (map (\<lambda>ob. (k ob, f ob)) opts))"
proof (induction opts arbitrary: result)
  case Nil
  then show ?case by simp
next
  case (Cons ob opts)
  have "map_of (fold (\<lambda>ob. AList.update (k ob) (f ob)) (ob # opts) result)
          = (map_of result)(k ob \<mapsto> f ob) ++ map_of (rev (map (\<lambda>ob. (k ob, f ob)) opts))"
    unfolding fold_simps o_apply Cons.IH update_conv' ..
  also have "\<dots> = map_of result ++ ([k ob \<mapsto> f ob]
                ++ map_of (rev (map (\<lambda>ob. (k ob, f ob)) opts)))"
    by (simp add: map_add_assoc)
  finally show ?case by (simp add: map_of_append)
qed

lemma dict_merge_conv: "map_of (dict_merge a b) = map_of a ++ map_of (rev b)"
  using map_of_fold_update [of fst snd b a]
  by (simp add: dict_merge_def case_prod_unfold)

lemma distinct_fold_update:
  "distinct (map fst result) \<Longrightarrow>
   distinct (map fst (fold (\<lambda>ob. AList.update (k ob) (f ob)) opts result))"
  by (induction opts arbitrary: result) (simp_all add: distinct_update)

lemma map_of_rev_distinct: "distinct (map fst xs) \<Longrightarrow> map_of (rev xs) = map_of xs"
proof (induction xs)
  case Nil
  then show ?case by simp
next
  case (Cons x xs)
  obtain key v where x: "x = (key, v)" by (cases x)
  from Cons.prems x have fresh: "key \<notin> dom (map_of xs)"
    by (simp add: dom_map_of_conv_image_fst)
  have "map_of (rev (x # xs)) = [key \<mapsto> v] ++ map_of xs"
    using Cons x by (simp add: map_of_append)
  also have "\<dots> = map_of xs ++ [key \<mapsto> v]"
    using fresh by (intro map_add_comm) simp
  finally show ?case using x by simp
qed

lemma keys_fold_update:
  "fst ` set (fold (\<lambda>ob. AList.update (k ob) (f ob)) opts result)
     = fst ` set result \<union> k ` set opts"
  by (induction opts arbitrary: result) (auto simp add: dom_update)

lemma set_update_subset: "set (AList.update key v al) \<subseteq> insert (key, v) (set al)"
  by (induction al) auto

lemma values_named:
  "\<forall>p \<in> set result. name (snd p) = fst p \<Longrightarrow>
   \<forall>p \<in> set (fold (\<lambda>ob. AList.update (name ob) (stamp cn ob)) opts result).
      name (snd p) = fst p"
proof (induction opts arbitrary: result)
  case Nil
  then show ?case by simp
next
  case (Cons ob opts)
  have "\<forall>p \<in> set (AList.update (name ob) (stamp cn ob) result). name (snd p) = fst p"
    using Cons.prems set_update_subset [of "name ob" "stamp cn ob" result] by auto
  from Cons.IH [OF this] show ?case by simp
qed

lemma update_fresh: "key \<notin> fst ` set al \<Longrightarrow> AList.update key v al = al @ [(key, v)]"
  by (induction al) auto

lemma fold_update_distinct:
  "distinct (map k opts) \<Longrightarrow> k ` set opts \<inter> fst ` set acc = {} \<Longrightarrow>
   fold (\<lambda>ob. AList.update (k ob) (f ob)) opts acc = acc @ map (\<lambda>ob. (k ob, f ob)) opts"
proof (induction opts arbitrary: acc)
  case Nil
  then show ?case by simp
next
  case (Cons ob opts)
  from Cons.prems have fresh: "k ob \<notin> fst ` set acc" by auto
  from Cons.prems have "k ` set opts \<inter> fst ` set (acc @ [(k ob, f ob)]) = {}" by auto
  with Cons.prems Cons.IH [of "acc @ [(k ob, f ob)]"] fresh show ?case
    by (simp add: update_fresh)
qed

text \<open>The second loop: it passes when no name collides, and raises at the first that does.\<close>

lemma collision_loop_clear:
  "\<forall>ob \<in> set vals. name ob \<notin> fst ` set old \<Longrightarrow>
   collision_loop old vals opt = Inr (if vals = [] then opt else Some (last vals))"
  by (induction vals arbitrary: opt) auto

lemma collision_loop_hit:
  "\<exists>ob \<in> set vals. name ob \<in> fst ` set old \<Longrightarrow>
   \<exists>ob \<in> set vals. name ob \<in> fst ` set old
      \<and> collision_loop old vals opt
          = Inl (RuntimeError (''Attempt to specify option '' @ name ob @ '' twice''))"
proof (induction vals arbitrary: opt)
  case Nil
  then show ?case by simp
next
  case (Cons v vals)
  show ?case
  proof (cases "name v \<in> fst ` set old")
    case True
    then show ?thesis by auto
  next
    case False
    with Cons.prems have "\<exists>ob \<in> set vals. name ob \<in> fst ` set old" by auto
    from Cons.IH [OF this, of "Some v"] False show ?thesis by auto
  qed
qed

lemma collision_loop_Inr:
  "collision_loop old vals opt = Inr opt' \<Longrightarrow>
   opt' = (if vals = [] then opt else Some (last vals))"
  by (induction vals arbitrary: opt) (auto split: if_splits)

text \<open>The dictionary \<^verbatim>\<open>result\<close> that the first loop builds.\<close>

lemma result_values:
  fixes opts :: "'w Option list" and cn :: string
  defines "result \<equiv> fold (\<lambda>ob. AList.update (name ob) (stamp cn ob)) opts []"
  shows "name ` set (map snd result) = name ` set opts"
    and "map_of (rev result) = declared_options cn opts"
    and "map_of result = declared_options cn opts"
proof -
  have named: "\<forall>p \<in> set result. name (snd p) = fst p"
    unfolding result_def by (rule values_named) simp
  have keys: "fst ` set result = name ` set opts"
    unfolding result_def by (simp add: keys_fold_update)
  have "name ` set (map snd result) = fst ` set result"
    using named by (force simp add: image_iff)
  with keys show "name ` set (map snd result) = name ` set opts" by simp
  have d: "distinct (map fst result)"
    unfolding result_def by (rule distinct_fold_update) simp
  show m: "map_of result = declared_options cn opts"
    unfolding result_def declared_options_def by (simp add: map_of_fold_update)
  with d show "map_of (rev result) = declared_options cn opts"
    by (simp add: map_of_rev_distinct)
qed

text \<open>\<^verbatim>\<open>wrapped\<close> after its first loop, on arguments that are all options.\<close>

lemma wrapped_options:
  assumes "result = fold (\<lambda>ob. AList.update (name ob) (stamp (class_name pc) ob)) opts []"
    and "opt = (if opts = [] then None else Some (stamp (class_name pc) (last opts)))"
  shows "wrapped (map OptionObj opts) pc =
     (case (if has_options (takes_config_attr pc) then takes_config_attr pc else None) of
        Some old \<Rightarrow>
          (case collision_loop old (map snd result) opt of
             Inl e \<Rightarrow> (Inl e, pc)
           | Inr opt' \<Rightarrow>
               install_attribute opt' (pc\<lparr>takes_config_attr := Some (dict_merge old result)\<rparr>))
      | None \<Rightarrow> install_attribute opt (pc\<lparr>takes_config_attr := Some result\<rparr>))"
  unfolding assms wrapped_def options_loop_options by simp

text \<open>
  \<^verbatim>\<open>Config.__set_name__\<close> checks the name against the registry the owner already has,
  as \<^verbatim>\<open>wrapped\<close> does.
\<close>

lemma Config_set_name_collision:
  "takes_config_attr owner = Some old \<Longrightarrow> old \<noteq> [] \<Longrightarrow> nm \<in> fst ` set old \<Longrightarrow>
   fst (Config_set_name self owner nm)
     = Inl (RuntimeError (''Attempt to specify option '' @ nm @ '' twice''))"
  by (simp add: Config_set_name_def Let_def)

lemma Config_set_name_fresh:
  "takes_config_attr owner = Some old \<Longrightarrow> old \<noteq> [] \<Longrightarrow> nm \<notin> fst ` set old \<Longrightarrow>
   Config_set_name self owner nm
     = (Inr (), self\<lparr>name := nm, taken_by := Some (class_name owner)\<rparr>,
        owner\<lparr>takes_config_attr :=
          Some (old @ [(nm, self\<lparr>name := nm, taken_by := Some (class_name owner)\<rparr>)])\<rparr>)"
  by (simp add: Config_set_name_def Let_def dict_merge_def update_fresh)

text \<open>
  Claim C3, amended. Let a call declare at least one option, all arguments being
  options. When the class already has a non-empty registry (its own or an inherited
  one) and a declared name is a key of it, the call raises \<^verbatim>\<open>RuntimeError\<close> with
  \<^verbatim>\<open>"Attempt to specify option <name> twice"\<close> for such a name and the class is as it
  was. When no declared name is a key of it, the call succeeds and the stored registry
  is the old registry together with the declared options. When the class has no
  registry or an empty one, the call succeeds and the stored registry is the declared
  options. In both cases two options of the call that share a name raise nothing: the
  later one replaces the earlier one among the declared options.
\<close>

theorem takes_config_registry:
  assumes "opts \<noteq> []"
  shows "(takes_config_attr plugin_class = Some old \<and> old \<noteq> []
            \<and> (\<exists>ob \<in> set opts. name ob \<in> fst ` set old) \<longrightarrow>
          (\<exists>n \<in> name ` set opts \<inter> fst ` set old.
             takes_config (map OptionObj opts) plugin_class
               = (Inl (RuntimeError (''Attempt to specify option '' @ n @ '' twice'')),
                  plugin_class)))
       \<and> (takes_config_attr plugin_class = Some old \<and> old \<noteq> []
            \<and> (\<forall>ob \<in> set opts. name ob \<notin> fst ` set old) \<longrightarrow>
          fst (takes_config (map OptionObj opts) plugin_class) = Inr ()
          \<and> (\<exists>registry.
                takes_config_attr (snd (takes_config (map OptionObj opts) plugin_class))
                  = Some registry
                \<and> map_of registry
                    = map_of old ++ declared_options (class_name plugin_class) opts))
       \<and> (\<not> has_options (takes_config_attr plugin_class) \<longrightarrow>
          fst (takes_config (map OptionObj opts) plugin_class) = Inr ()
          \<and> (\<exists>registry.
                takes_config_attr (snd (takes_config (map OptionObj opts) plugin_class))
                  = Some registry
                \<and> map_of registry = declared_options (class_name plugin_class) opts))"
proof -
  define cn where "cn = class_name plugin_class"
  define result where "result = fold (\<lambda>ob. AList.update (name ob) (stamp cn ob)) opts []"
  define opt where "opt = (if opts = [] then None else Some (stamp cn (last opts)))"
  have w: "wrapped (map OptionObj opts) plugin_class =
     (case (if has_options (takes_config_attr plugin_class)
            then takes_config_attr plugin_class else None) of
        Some old \<Rightarrow>
          (case collision_loop old (map snd result) opt of
             Inl e \<Rightarrow> (Inl e, plugin_class)
           | Inr opt' \<Rightarrow>
               install_attribute opt'
                 (plugin_class\<lparr>takes_config_attr := Some (dict_merge old result)\<rparr>))
      | None \<Rightarrow> install_attribute opt (plugin_class\<lparr>takes_config_attr := Some result\<rparr>))"
    by (rule wrapped_options) (simp_all add: result_def opt_def cn_def)
  have names: "name ` set (map snd result) = name ` set opts"
    and rev_result: "map_of (rev result) = declared_options cn opts"
    and map_result: "map_of result = declared_options cn opts"
    unfolding result_def by (rule result_values)+
  have opt: "opt = Some (stamp cn (last opts))"
    using assms by (simp add: opt_def)
  have result_ne: "map snd result \<noteq> []"
    using names assms by auto
  have hit: "\<exists>n \<in> name ` set opts \<inter> fst ` set old.
             takes_config (map OptionObj opts) plugin_class
               = (Inl (RuntimeError (''Attempt to specify option '' @ n @ '' twice'')),
                  plugin_class)"
    if old: "takes_config_attr plugin_class = Some old" "old \<noteq> []"
      and c: "\<exists>ob \<in> set opts. name ob \<in> fst ` set old"
  proof -
    from c names have "\<exists>ob \<in> set (map snd result). name ob \<in> fst ` set old"
      by (metis (no_types, lifting) image_iff)
    from collision_loop_hit [OF this, of opt] obtain ob
      where ob: "ob \<in> set (map snd result)" "name ob \<in> fst ` set old"
        "collision_loop old (map snd result) opt
           = Inl (RuntimeError (''Attempt to specify option '' @ name ob @ '' twice''))"
      by blast
    from ob(1) names have "name ob \<in> name ` set opts" by blast
    with ob(2,3) old show ?thesis
      by (auto simp add: takes_config_def w)
  qed
  have clear: "fst (takes_config (map OptionObj opts) plugin_class) = Inr ()
          \<and> (\<exists>registry.
                takes_config_attr (snd (takes_config (map OptionObj opts) plugin_class))
                  = Some registry
                \<and> map_of registry = map_of old ++ declared_options cn opts)"
    if old: "takes_config_attr plugin_class = Some old" "old \<noteq> []"
      and c: "\<forall>ob \<in> set opts. name ob \<notin> fst ` set old"
  proof -
    from c names have "\<forall>ob \<in> set (map snd result). name ob \<notin> fst ` set old"
      by (metis (no_types, lifting) image_iff)
    from collision_loop_clear [OF this, of opt] result_ne
    have "collision_loop old (map snd result) opt = Inr (Some (last (map snd result)))"
      by simp
    with old show ?thesis
      by (simp add: takes_config_def w dict_merge_conv rev_result)
  qed
  have none: "fst (takes_config (map OptionObj opts) plugin_class) = Inr ()
          \<and> (\<exists>registry.
                takes_config_attr (snd (takes_config (map OptionObj opts) plugin_class))
                  = Some registry
                \<and> map_of registry = declared_options cn opts)"
    if "\<not> has_options (takes_config_attr plugin_class)"
    using that by (simp add: takes_config_def w opt map_result)
  from hit clear none show ?thesis
    unfolding cn_def by blast
qed

text \<open>
  The claim as stated has the call raise when two of its options share a name. On a
  class without registry, two options named \<open>a\<close>, with the defaults 1 and 2, are
  accepted: the call returns and the registry holds the second one only.
\<close>

theorem takes_config_registry_counterexample:
  "name ((option_named Option_class ''a'')\<lparr>default_value := Some (PInt 1)\<rparr>)
     = name ((option_named Option_class ''a'')\<lparr>default_value := Some (PInt 2)\<rparr>)
   \<and> takes_config
        [OptionObj ((option_named Option_class ''a'')\<lparr>default_value := Some (PInt 1)\<rparr>),
         OptionObj ((option_named Option_class ''a'')\<lparr>default_value := Some (PInt 2)\<rparr>)]
        bare_class
     = (Inr (),
        bare_class\<lparr>takes_config_attr :=
          Some [(''a'', stamp ''Records''
                  ((option_named Option_class ''a'')\<lparr>default_value := Some (PInt 2)\<rparr>))]\<rparr>)"
  by (simp add: takes_config_def wrapped_def bare_class_def option_named_def bare_option_def
      stamp_def Let_def)

text \<open>
  A subclass of a class that has registered \<open>x\<close>: declaring \<open>x\<close> again raises,
  declaring \<open>y\<close> gives the registry of both; on a class without registry, declaring
  \<open>y\<close> gives the registry of \<open>y\<close>.
\<close>

theorem takes_config_registry_witness:
  "takes_config [OptionObj (option_named Option_class ''x'')]
       (new_subclass ''Child'' parent_class)
     = (Inl (RuntimeError ''Attempt to specify option x twice''),
        new_subclass ''Child'' parent_class)
   \<and> fst (takes_config [OptionObj (option_named Option_class ''y'')]
            (new_subclass ''Child'' parent_class)) = Inr ()
   \<and> map_of (the (takes_config_attr
        (snd (takes_config [OptionObj (option_named Option_class ''y'')]
               (new_subclass ''Child'' parent_class)))))
     = [''x'' \<mapsto> stamp ''Parent'' bare_option,
        ''y'' \<mapsto> stamp ''Child'' (option_named Option_class ''y'')]
   \<and> map_of (the (takes_config_attr
        (snd (takes_config [OptionObj (option_named Option_class ''y'')] bare_class))))
     = [''y'' \<mapsto> stamp ''Records'' (option_named Option_class ''y'')]"
proof -
  let ?child = "new_subclass ''Child'' parent_class"
  let ?old = "[(''x'', stamp ''Parent'' bare_option)]"
  let ?x = "option_named Option_class ''x''"
  let ?y = "option_named Option_class ''y''"
  have old: "takes_config_attr ?child = Some ?old" "?old \<noteq> []"
    by (simp_all add: new_subclass_def parent_class_def)
  have cn: "class_name ?child = ''Child''" by (simp add: new_subclass_def)
  have nx: "name ?x = ''x''" and ny: "name ?y = ''y''" by (simp_all add: option_named_def)
  have 1: "takes_config [OptionObj ?x] ?child
             = (Inl (RuntimeError ''Attempt to specify option x twice''), ?child)"
    using takes_config_registry [of "[?x]" ?child ?old, THEN conjunct1] old nx
    by simp
  have 2: "fst (takes_config [OptionObj ?y] ?child) = Inr ()
           \<and> map_of (the (takes_config_attr (snd (takes_config [OptionObj ?y] ?child))))
               = [''x'' \<mapsto> stamp ''Parent'' bare_option, ''y'' \<mapsto> stamp ''Child'' ?y]"
    using takes_config_registry [of "[?y]" ?child ?old, THEN conjunct2, THEN conjunct1] old ny cn
    by (auto simp add: declared_options_def)
  have 3: "map_of (the (takes_config_attr (snd (takes_config [OptionObj ?y] bare_class))))
             = [''y'' \<mapsto> stamp ''Records'' ?y]"
    using takes_config_registry [of "[?y]" bare_class, THEN conjunct2, THEN conjunct2] ny
    by (auto simp add: declared_options_def bare_class_def)
  from 1 2 3 show ?thesis by simp
qed

text \<open>
  What is installed when the declared names are pairwise distinct, or when the class
  had no registry or an empty one, and the call returns: the final option of the
  sequence when it is a \<^verbatim>\<open>Config\<close>, and nothing when it is not.
\<close>

lemma final_option_installed:
  assumes "opts \<noteq> []"
    and "distinct (map name opts) \<or> \<not> has_options (takes_config_attr plugin_class)"
    and "fst (takes_config (map OptionObj opts) plugin_class) = Inr ()"
  shows "class_attrs (snd (takes_config (map OptionObj opts) plugin_class))
           = (if cls (last opts) = Config_class
              then (class_attrs plugin_class)
                     (name (last opts) \<mapsto> OptionObj (stamp (class_name plugin_class) (last opts)))
              else class_attrs plugin_class)"
proof -
  define cn where "cn = class_name plugin_class"
  define result where "result = fold (\<lambda>ob. AList.update (name ob) (stamp cn ob)) opts []"
  define opt where "opt = (if opts = [] then None else Some (stamp cn (last opts)))"
  have w: "wrapped (map OptionObj opts) plugin_class =
     (case (if has_options (takes_config_attr plugin_class)
            then takes_config_attr plugin_class else None) of
        Some old \<Rightarrow>
          (case collision_loop old (map snd result) opt of
             Inl e \<Rightarrow> (Inl e, plugin_class)
           | Inr opt' \<Rightarrow>
               install_attribute opt'
                 (plugin_class\<lparr>takes_config_attr := Some (dict_merge old result)\<rparr>))
      | None \<Rightarrow> install_attribute opt (plugin_class\<lparr>takes_config_attr := Some result\<rparr>))"
    by (rule wrapped_options) (simp_all add: result_def opt_def cn_def)
  have opt: "opt = Some (stamp cn (last opts))"
    using assms(1) by (simp add: opt_def)
  show ?thesis
  proof (cases "has_options (takes_config_attr plugin_class)")
    case False
    then show ?thesis
      by (simp add: takes_config_def w opt cn_def)
  next
    case True
    then obtain old where old: "takes_config_attr plugin_class = Some old"
      by (cases "takes_config_attr plugin_class") auto
    from True assms(2) have "distinct (map name opts)" by simp
    then have "result = map (\<lambda>ob. (name ob, stamp cn ob)) opts"
      unfolding result_def using fold_update_distinct [of name opts "[]" "stamp cn"] by simp
    then have vals: "map snd result = map (stamp cn) opts" by (simp add: comp_def)
    show ?thesis
    proof (cases "collision_loop old (map snd result) opt")
      case (Inl e)
      with True old assms(3) show ?thesis by (simp add: takes_config_def w)
    next
      case (Inr opt')
      from collision_loop_Inr [OF this] vals assms(1)
      have "opt' = Some (stamp cn (last opts))" by (simp add: last_map)
      with Inr True old show ?thesis
        by (simp add: takes_config_def w cn_def)
    qed
  qed
qed

text \<open>
  Claim C8. After the decorator is applied to a non-empty sequence of options, the
  final option is installed as class attribute exactly when it is a \<^verbatim>\<open>Config\<close>, and a
  \<^verbatim>\<open>Config\<close> at an earlier position is not installed. The code departs from this on a
  class that already has options: the loop that looks for collisions runs over the
  values of the new dictionary with the same variable \<^verbatim>\<open>opt\<close> that the final test
  reads. With the arguments \<open>a\<close> (a \<^verbatim>\<open>Config\<close>), \<open>b\<close> (a \<^verbatim>\<open>Config\<close>) and \<open>a\<close>
  again (a plain option) the dictionary's last value is \<open>b\<close>, so on such a class \<open>b\<close>
  is installed although the final option is no \<^verbatim>\<open>Config\<close>. On a class without
  registry, where that loop does not run, the same arguments install nothing, as the
  claim says.
\<close>

theorem takes_config_installs_earlier_config:
  "repeated_name_options
     = [OptionObj (option_named Config_class ''a''), OptionObj (option_named Config_class ''b''),
        OptionObj (option_named Option_class ''a'')]
   \<and> cls (option_named Option_class ''a'') = Option_class
   \<and> fst (takes_config repeated_name_options parent_class) = Inr ()
   \<and> class_attrs parent_class = Map.empty
   \<and> class_attrs (snd (takes_config repeated_name_options parent_class))
       = [''b'' \<mapsto> OptionObj (stamp ''Parent'' (option_named Config_class ''b''))]
   \<and> fst (takes_config repeated_name_options bare_class) = Inr ()
   \<and> class_attrs (snd (takes_config repeated_name_options bare_class)) = Map.empty"
  by (simp add: repeated_name_options_def takes_config_def wrapped_def parent_class_def
      bare_class_def option_named_def bare_option_def stamp_def dict_merge_def Let_def)

text \<open>
  With distinct names on the class that has options: the final \<^verbatim>\<open>Config\<close> is installed,
  a final plain option is not, and the earlier \<^verbatim>\<open>Config\<close> never is.
\<close>

lemma final_option_installed_example:
  "class_attrs (snd (takes_config
      [OptionObj (option_named Config_class ''a''), OptionObj (option_named Config_class ''b'')]
      parent_class))
     = [''b'' \<mapsto> OptionObj (stamp ''Parent'' (option_named Config_class ''b''))]
   \<and> class_attrs (snd (takes_config
      [OptionObj (option_named Config_class ''a''), OptionObj (option_named Option_class ''b'')]
      parent_class))
     = Map.empty"
proof -
  let ?a = "option_named Config_class ''a''"
  let ?b = "option_named Config_class ''b''"
  let ?c = "option_named Option_class ''b''"
  have ok1: "fst (takes_config (map OptionObj [?a, ?b]) parent_class) = Inr ()"
    by (simp add: takes_config_def wrapped_def parent_class_def option_named_def
        bare_option_def stamp_def dict_merge_def Let_def)
  have ok2: "fst (takes_config (map OptionObj [?a, ?c]) parent_class) = Inr ()"
    by (simp add: takes_config_def wrapped_def parent_class_def option_named_def
        bare_option_def stamp_def dict_merge_def Let_def)
  have d1: "distinct (map name [?a, ?b]) \<or> \<not> has_options (takes_config_attr parent_class)"
    by (simp add: option_named_def)
  have d2: "distinct (map name [?a, ?c]) \<or> \<not> has_options (takes_config_attr parent_class)"
    by (simp add: option_named_def)
  have 1: "class_attrs (snd (takes_config (map OptionObj [?a, ?b]) parent_class))
             = [''b'' \<mapsto> OptionObj (stamp ''Parent'' ?b)]"
    using final_option_installed [OF _ d1 ok1]
    by (simp add: option_named_def parent_class_def)
  have 2: "class_attrs (snd (takes_config (map OptionObj [?a, ?c]) parent_class)) = Map.empty"
    using final_option_installed [OF _ d2 ok2]
    by (simp add: option_named_def parent_class_def)
  from 1 2 show ?thesis by simp
qed

text \<open>
  Claim C10, amended. Applied with no option at all, the decorator raises the
  unbound-name error for \<^verbatim>\<open>opt\<close> on every class and so never returns the class. The
  registry is assigned before \<^verbatim>\<open>opt\<close> is read: the class is left with the registry it
  had, or with the empty registry when it had none.
\<close>

theorem takes_config_no_options:
  "takes_config [] plugin_class
     = (Inl (UnboundLocalError ''opt''),
        plugin_class\<lparr>takes_config_attr :=
          Some (case takes_config_attr plugin_class of None \<Rightarrow> [] | Some old \<Rightarrow> old)\<rparr>)"
  by (cases "takes_config_attr plugin_class"; cases "the (takes_config_attr plugin_class)")
     (simp_all add: takes_config_def wrapped_def dict_merge_def)

text \<open>
  The claim as stated has no empty registry installed. A class without registry has
  the empty registry after the failed call.
\<close>

theorem takes_config_no_options_counterexample:
  "takes_config_attr bare_class = None
   \<and> takes_config_attr (snd (takes_config [] bare_class)) = Some []
   \<and> fst (takes_config [] bare_class) = Inl (UnboundLocalError ''opt'')"
  by (simp add: takes_config_def wrapped_def bare_class_def)

theorem takes_config_no_options_witness:
  "takes_config [] parent_class = (Inl (UnboundLocalError ''opt''), parent_class)
   \<and> takes_config [] bare_class
       = (Inl (UnboundLocalError ''opt''), bare_class\<lparr>takes_config_attr := Some []\<rparr>)"
  using takes_config_no_options [of parent_class] takes_config_no_options [of bare_class]
  by (simp add: parent_class_def bare_class_def)

subsection \<open>Generated bounds\<close>

lemma chunked_Nil [simp]: "chunked [] n = []"
  by (simp add: chunked.simps)

lemma chunked_pair [simp]: "chunked (a # b # rest) 2 = [a, b] # chunked rest 2"
  by (subst chunked.simps) simp

lemma set_chunked: "c \<in> set (chunked xs n) \<Longrightarrow> set c \<subseteq> set xs"
proof (induction xs n rule: chunked.induct)
  case (1 src sz)
  show ?case
  proof (cases "src = [] \<or> sz = 0")
    case True
    with "1.prems" show ?thesis by (simp add: chunked.simps)
  next
    case False
    with "1.prems" have "c = take sz src \<or> c \<in> set (chunked (drop sz src) sz)"
      by (subst (asm) chunked.simps) auto
    then show ?thesis
    proof
      assume "c = take sz src"
      then show ?thesis by (auto dest: in_set_takeD)
    next
      assume "c \<in> set (chunked (drop sz src) sz)"
      from "1.IH" [OF False this] show ?thesis by (auto dest: in_set_dropD)
    qed
  qed
qed

text \<open>Running sums of non-negative numbers ascend.\<close>

lemma accumulate_from_bounds:
  "\<forall>x \<in> set xs. 0 \<le> x \<Longrightarrow>
   sorted (accumulate_from t xs) \<and> (\<forall>y \<in> set (accumulate_from t xs). t \<le> y)"
proof (induction xs arbitrary: t)
  case Nil
  then show ?case by simp
next
  case (Cons x xs)
  from Cons.prems have x: "0 \<le> x" and xs: "\<forall>x \<in> set xs. 0 \<le> x" by simp_all
  from Cons.IH [OF xs, of "t + x"] x show ?case by fastforce
qed

lemma sorted_accumulate: "\<forall>x \<in> set xs. 0 \<le> x \<Longrightarrow> sorted (accumulate xs)"
proof (cases xs)
  case Nil
  then show ?thesis by simp
next
  case (Cons x rest)
  assume "\<forall>x \<in> set xs. 0 \<le> x"
  with Cons have "\<forall>x \<in> set rest. 0 \<le> x" by simp
  from accumulate_from_bounds [OF this, of x] Cons show ?thesis by simp
qed

text \<open>
  The pairs cut from an ascending list of even length: they are in lexicographic
  order, each is a pair with left at most right, and each ends no later than every
  later one starts.
\<close>

lemma chunked_sorted:
  "even (length ys) \<Longrightarrow> sorted ys \<Longrightarrow>
   sorted (chunked ys 2)
   \<and> (\<forall>c \<in> set (chunked ys 2). \<exists>left right. c = [left, right] \<and> left \<le> right)
   \<and> sorted_wrt (\<lambda>a b. a ! 1 \<le> b ! 0) (chunked ys 2)"
proof (induction ys rule: induct_list012)
  case 1
  then show ?case by simp
next
  case (2 x)
  then show ?case by simp
next
  case (3 a b rest)
  from "3.prems" have ev: "even (length rest)" and so: "sorted rest" by simp_all
  from "3.IH"(1) [OF ev so]
  have ih: "sorted (chunked rest 2)"
    "\<forall>c \<in> set (chunked rest 2). \<exists>left right. c = [left, right] \<and> left \<le> right"
    "sorted_wrt (\<lambda>a b. a ! 1 \<le> b ! 0) (chunked rest 2)"
    by simp_all
  from "3.prems" have ab: "a \<le> b" and b: "\<forall>z \<in> set rest. b \<le> z" by auto
  have later: "[a, b] \<le> c \<and> b \<le> c ! 0" if c: "c \<in> set (chunked rest 2)" for c
  proof -
    from ih(2) c obtain left right where lr: "c = [left, right]" by blast
    from set_chunked [OF c] lr have "left \<in> set rest" "right \<in> set rest" by simp_all
    with b have "b \<le> left" "b \<le> right" by simp_all
    with ab lr show ?thesis by auto
  qed
  from ih ab later show ?case by auto
qed

text \<open>
  Claim C9. With \<^verbatim>\<open>disjoint=True\<close>, from a drawn list of non-negative integers, every
  sample that passes the filters is a list in ascending order of 2-tuples
  \<open>(left, right)\<close> with \<open>left < right\<close>, and each of them ends no later than every
  later one starts, so no two of the half-open ranges overlap.
\<close>

theorem sorted_bounds_disjoint:
  assumes "\<forall>v \<in> set drawn. 0 \<le> v"
    and "sorted_bounds True remove_duplicates list_set drawn = Some bounds"
  shows "sorted bounds
       \<and> (\<forall>b \<in> set bounds. \<exists>left right. b = [left, right] \<and> left < right)
       \<and> sorted_wrt (\<lambda>a b. a ! 1 \<le> b ! 0) bounds"
proof -
  define s where "s = accumulate drawn"
  define x where "x = chunked (sort s) 2"
  from assms(2) have ev: "even (length s)"
    and nz: "list_all (\<lambda>a. a ! 0 \<noteq> a ! 1) x"
    and bounds: "bounds = sort x"
    by (auto simp add: sorted_bounds_def s_def x_def Let_def split: if_splits)
  have s: "sorted s"
    unfolding s_def using assms(1) by (rule sorted_accumulate)
  then have x: "x = chunked s 2"
    by (simp add: x_def sorted_sort_id)
  from chunked_sorted [OF ev s] x
  have sx: "sorted x"
    and pairs: "\<forall>c \<in> set x. \<exists>left right. c = [left, right] \<and> left \<le> right"
    and apart: "sorted_wrt (\<lambda>a b. a ! 1 \<le> b ! 0) x"
    by simp_all
  from sx bounds have b: "bounds = x" by (simp add: sorted_sort_id)
  have "\<forall>c \<in> set x. \<exists>left right. c = [left, right] \<and> left < right"
  proof
    fix c assume c: "c \<in> set x"
    with pairs obtain left right where lr: "c = [left, right]" "left \<le> right" by blast
    from nz c have "c ! 0 \<noteq> c ! 1" by (simp add: list_all_iff)
    with lr show "\<exists>left right. c = [left, right] \<and> left < right" by auto
  qed
  with sx apart b show ?thesis by simp
qed

text \<open>
  The drawn list \<^verbatim>\<open>[1, 2, 0, 3]\<close> has the running sums 1, 3, 3, 6 and gives the bounds
  \<open>(1, 3)\<close> and \<open>(3, 6)\<close>.
\<close>

theorem sorted_bounds_disjoint_witness:
  "sorted_bounds True False id [1, 2, 0, 3] = Some [[1, 3], [3, 6]]
   \<and> sorted [[1, 3], [3, 6 :: int]]
   \<and> sorted_wrt (\<lambda>a b. a ! 1 \<le> b ! 0) [[1, 3], [3, 6 :: int]]"
proof -
  have nonneg: "\<forall>v \<in> set [1, 2, 0, 3 :: int]. 0 \<le> v" by simp
  have run: "sorted_bounds True False id [1, 2, 0, 3] = Some [[1, 3], [3, 6]]"
    by (simp add: sorted_bounds_def Let_def)
  from sorted_bounds_disjoint [OF nonneg run] run show ?thesis by simp
qed

end
